theory Spec2Isabelle
  imports Main "HOL-Library.Word" "HOL-Library.Signed_Division"
begin

section \<open>The report model (package parser)\<close>

text \<open>
  Modelled from the spec: the declarations of package \<^verbatim>\<open>parser\<close> (\<^verbatim>\<open>Report\<close>,
  \<^verbatim>\<open>Package\<close>, \<^verbatim>\<open>Test\<close>, \<^verbatim>\<open>Benchmark\<close>, \<^verbatim>\<open>Result\<close>) are not among the
  sources. The types below follow section 3 of the specification and the fields
  that the formatter and the test table read. A \<^verbatim>\<open>time.Duration\<close> is a signed
  64-bit count of nanoseconds; Go's \<^verbatim>\<open>int\<close> is taken at 64 bits. The slices
  \<^verbatim>\<open>[]*parser.Test\<close> and \<^verbatim>\<open>[]*parser.Benchmark\<close> are read through their
  pointers only, so they are lists of the values pointed to.
\<close>

datatype Result = PASS | FAIL | SKIP | ERROR

type_synonym Duration = "64 word"

type_synonym go_int = "64 word"

record Test =
  Name :: string
  Duration :: Duration
  Result :: Result
  Output :: "string list"

record Benchmark =
  Name :: string
  Duration :: Duration
  Bytes :: go_int
  Allocs :: go_int

record Package =
  Name :: string
  Duration :: Duration
  Tests :: "Test list"
  Benchmarks :: "Benchmark list"
  CoveragePct :: string

record Report =
  Packages :: "Package list"

section \<open>The JUnit structures (formatter.go, lines 17 to 72)\<close>

text \<open>
  The \<^verbatim>\<open>XMLName\<close> fields are never assigned and carry only the element name of
  their struct tag; they are left out. A pointer field that is \<^verbatim>\<open>nil\<close> is
  \<open>None\<close>. The struct tags say where a field goes in the document:
  \<^verbatim>\<open>tests,attr\<close>, \<^verbatim>\<open>failures,attr\<close>, \<^verbatim>\<open>errors,attr\<close> and \<^verbatim>\<open>skipped,attr\<close>
  are attributes of \<^verbatim>\<open><testsuite>\<close>; \<^verbatim>\<open>classname,attr\<close>, \<^verbatim>\<open>name,attr\<close> and
  \<^verbatim>\<open>time,attr\<close> are attributes of \<^verbatim>\<open><testcase>\<close>; \<^verbatim>\<open>SkipMessage\<close>,
  \<^verbatim>\<open>Error\<close> and \<^verbatim>\<open>Failure\<close> are the optional child elements
  \<^verbatim>\<open><skipped>\<close>, \<^verbatim>\<open><error>\<close> and \<^verbatim>\<open><failure>\<close>; \<^verbatim>\<open>SystemOut\<close> is tagged
  \<^verbatim>\<open>,comment\<close> and becomes a comment node.
\<close>

record JUnitSkipMessage =
  Message :: string

record JUnitProperty =
  Name :: string
  Value :: string

record JUnitError =
  Message :: string
  Type :: string
  Contents :: string

record JUnitFailure =
  Message :: string
  Type :: string
  Contents :: string

record JUnitTestCase =
  Classname :: string
  Name :: string
  Time :: string
  SkipMessage :: "JUnitSkipMessage option"
  Error :: "JUnitError option"
  Failure :: "JUnitFailure option"
  SystemOut :: string

record JUnitTestSuite =
  Tests :: int
  Failures :: int
  Errors :: int
  Skipped :: int
  Time :: string
  Name :: string
  Properties :: "JUnitProperty list"
  TestCases :: "JUnitTestCase list"

record JUnitTestSuites =
  Suites :: "JUnitTestSuite list"

section \<open>What the formatter takes from outside the repository\<close>

text \<open>A Go \<^verbatim>\<open>error\<close> value, read through its message.\<close>

datatype error = errorString string

text \<open>
  The standard library and the \<^verbatim>\<open>stripansi\<close> package are not part of the
  repository. The formatter is parametrised by them:
  \<^item> \<open>runtime_Version\<close> is \<^verbatim>\<open>runtime.Version()\<close>;
  \<^item> \<open>stripansi_Strip\<close> is \<^verbatim>\<open>stripansi.Strip\<close>;
  \<^item> \<open>fmt_Sprintf_Seconds n d\<close> is \<^verbatim>\<open>fmt.Sprintf("%.nf", d.Seconds())\<close>, a
    floating-point rendering that is not interpreted here;
  \<^item> \<open>xml_MarshalIndent v prefix indent\<close> is \<^verbatim>\<open>xml.MarshalIndent\<close>, which yields
    the bytes of the document or an error.
\<close>

record platform =
  runtime_Version :: string
  stripansi_Strip :: "string \<Rightarrow> string"
  fmt_Sprintf_Seconds :: "nat \<Rightarrow> Duration \<Rightarrow> string"
  xml_MarshalIndent :: "JUnitTestSuites \<Rightarrow> string \<Rightarrow> string \<Rightarrow> error + string"

text \<open>\<^verbatim>\<open>xml.Header\<close>, a constant of \<^verbatim>\<open>encoding/xml\<close>.\<close>

definition xml_Header :: string where
  \<open>xml_Header = ''<?xml version="1.0" encoding="UTF-8"?>'' @ [CHR 0x0A]\<close>

text \<open>
  An \<^verbatim>\<open>io.Writer\<close> is an object with a \<^verbatim>\<open>Write\<close> method: here the method and
  the state it acts on. \<^verbatim>\<open>Write\<close> reports how many bytes it took and an error.
\<close>

record 'w io_Writer =
  io_Write :: "'w \<Rightarrow> string \<Rightarrow> 'w \<times> nat \<times> error option"
  io_state :: 'w

text \<open>
  \<^verbatim>\<open>bufio.Writer\<close>, with the documented behaviour of its methods: bytes are
  collected in a buffer, an error of the underlying writer is sticky and turns
  every later call into a no-op, \<^verbatim>\<open>Flush\<close> hands the buffer to the underlying
  writer and reports a short write as an error. The flushes that a full buffer
  triggers in between are not modelled: the buffer is unbounded.
\<close>

record 'w bufio_Writer =
  bufio_err :: "error option"
  bufio_buf :: string
  bufio_wr :: "'w io_Writer"

definition io_ErrShortWrite :: error where
  "io_ErrShortWrite = errorString ''short write''"

definition bufio_NewWriter :: "'w io_Writer \<Rightarrow> 'w bufio_Writer" where
  "bufio_NewWriter w = \<lparr>bufio_err = None, bufio_buf = [], bufio_wr = w\<rparr>"

definition bufio_Write :: "'w bufio_Writer \<Rightarrow> string \<Rightarrow> 'w bufio_Writer \<times> nat \<times> error option" where
  "bufio_Write b p =
     (case bufio_err b of
        Some e \<Rightarrow> (b, 0, Some e)
      | None \<Rightarrow> (b\<lparr>bufio_buf := bufio_buf b @ p\<rparr>, length p, None))"

definition bufio_WriteString :: "'w bufio_Writer \<Rightarrow> string \<Rightarrow> 'w bufio_Writer \<times> nat \<times> error option" where
  "bufio_WriteString b s = bufio_Write b s"

definition bufio_WriteByte :: "'w bufio_Writer \<Rightarrow> char \<Rightarrow> 'w bufio_Writer \<times> error option" where
  "bufio_WriteByte b c =
     (case bufio_err b of
        Some e \<Rightarrow> (b, Some e)
      | None \<Rightarrow> (b\<lparr>bufio_buf := bufio_buf b @ [c]\<rparr>, None))"

definition bufio_Flush :: "'w bufio_Writer \<Rightarrow> 'w bufio_Writer \<times> error option" where
  "bufio_Flush b =
     (case bufio_err b of
        Some e \<Rightarrow> (b, Some e)
      | None \<Rightarrow>
          if bufio_buf b = [] then (b, None)
          else
            (let w = bufio_wr b;
                 (s', n, err) = io_Write w (io_state w) (bufio_buf b);
                 err = (if n < length (bufio_buf b) \<and> err = None then Some io_ErrShortWrite else err);
                 w' = w\<lparr>io_state := s'\<rparr>
             in case err of
                  Some e \<Rightarrow>
                    (b\<lparr>bufio_err := Some e, bufio_buf := drop n (bufio_buf b), bufio_wr := w'\<rparr>, Some e)
                | None \<Rightarrow> (b\<lparr>bufio_buf := [], bufio_wr := w'\<rparr>, None)))"

section \<open>Standard string functions\<close>

text \<open>\<^verbatim>\<open>strings.Join(elems, sep)\<close>.\<close>

fun strings_Join :: "string list \<Rightarrow> string \<Rightarrow> string" where
  "strings_Join [] sep = []"
| "strings_Join [e] sep = e"
| "strings_Join (e # e' # es) sep = e @ sep @ strings_Join (e' # es) sep"

text \<open>
  \<^verbatim>\<open>strings.LastIndex(s, substr)\<close>: the byte index of the last occurrence of
  \<open>substr\<close> in \<open>s\<close>, or \<open>-1\<close>. The search walks the start positions downwards.
\<close>

fun LastIndex_from :: "string \<Rightarrow> string \<Rightarrow> nat \<Rightarrow> int" where
  "LastIndex_from s substr 0 = (if take (length substr) s = substr then 0 else - 1)"
| "LastIndex_from s substr (Suc i) =
     (if take (length substr) (drop (Suc i) s) = substr then int (Suc i)
      else LastIndex_from s substr i)"

definition strings_LastIndex :: "string \<Rightarrow> string \<Rightarrow> int" where
  "strings_LastIndex s substr =
     (if length substr \<le> length s then LastIndex_from s substr (length s - length substr)
      else - 1)"

section \<open>The formatter of formatter/formatter.go\<close>

definition formatTime :: "platform \<Rightarrow> Duration \<Rightarrow> string" where
  "formatTime P d = fmt_Sprintf_Seconds P 9 d"

definition formatOutput :: "platform \<Rightarrow> string list \<Rightarrow> bool \<Rightarrow> string" where
  "formatOutput P lines stripANSIEscape =
     (let joined = strings_Join lines [CHR 0x0A] in
      if stripANSIEscape then stripansi_Strip P joined else joined)"

text \<open>
  One pass of the loop over \<^verbatim>\<open>pkg.Tests\<close> (lines 109 to 142). Lines 110 to
  139 build the test case; the \<^verbatim>\<open>switch\<close> on the result bumps a counter of the
  suite and fills one field of the test case. Line 141 appends the test case
  to the suite.
\<close>

definition JUnitReportXML_testCase ::
  "platform \<Rightarrow> string \<Rightarrow> bool \<Rightarrow> JUnitTestSuite \<Rightarrow> Test \<Rightarrow> JUnitTestSuite \<times> JUnitTestCase" where
  "JUnitReportXML_testCase P classname stripANSIEscape ts test =
     (let testCase = \<lparr>Classname = classname, JUnitTestCase.Name = Test.Name test,
                       JUnitTestCase.Time = formatTime P (Test.Duration test),
                       SkipMessage = None, Error = None, Failure = None, SystemOut = []\<rparr>
      in case Test.Result test of
           SKIP \<Rightarrow>
             (ts\<lparr>Skipped := Skipped ts + 1\<rparr>,
              testCase\<lparr>SkipMessage := Some \<lparr>JUnitSkipMessage.Message =
                 formatOutput P (Test.Output test) stripANSIEscape\<rparr>\<rparr>)
         | ERROR \<Rightarrow>
             (ts\<lparr>Errors := Errors ts + 1\<rparr>,
              testCase\<lparr>Error := Some \<lparr>JUnitError.Message = ''Error'', JUnitError.Type = [],
                 JUnitError.Contents = formatOutput P (Test.Output test) stripANSIEscape\<rparr>\<rparr>)
         | FAIL \<Rightarrow>
             (ts\<lparr>Failures := Failures ts + 1\<rparr>,
              testCase\<lparr>Failure := Some \<lparr>JUnitFailure.Message = ''Failed'', JUnitFailure.Type = [],
                 JUnitFailure.Contents = formatOutput P (Test.Output test) stripANSIEscape\<rparr>\<rparr>)
         | PASS \<Rightarrow>
             (ts, testCase\<lparr>SystemOut := formatOutput P (Test.Output test) stripANSIEscape\<rparr>))"

definition JUnitReportXML_test ::
  "platform \<Rightarrow> string \<Rightarrow> bool \<Rightarrow> JUnitTestSuite \<Rightarrow> Test \<Rightarrow> JUnitTestSuite" where
  "JUnitReportXML_test P classname stripANSIEscape ts test =
     (let (ts, testCase) = JUnitReportXML_testCase P classname stripANSIEscape ts test
      in ts\<lparr>TestCases := TestCases ts @ [testCase]\<rparr>)"

fun JUnitReportXML_tests ::
  "platform \<Rightarrow> string \<Rightarrow> bool \<Rightarrow> JUnitTestSuite \<Rightarrow> Test list \<Rightarrow> JUnitTestSuite" where
  "JUnitReportXML_tests P classname stripANSIEscape ts [] = ts"
| "JUnitReportXML_tests P classname stripANSIEscape ts (test # tests) =
     JUnitReportXML_tests P classname stripANSIEscape
       (JUnitReportXML_test P classname stripANSIEscape ts test) tests"

text \<open>
  One pass of the loop over \<^verbatim>\<open>report.Packages\<close> (lines 80 to 145). Lines 91
  to 96 choose the classname; the slice \<^verbatim>\<open>pkg.Name[idx+1:]\<close> is within bounds,
  since \<open>idx\<close> is below the length of the name. Lines 81 to 142 build the suite
  of the package; they read and assign the variable \<^verbatim>\<open>goVersion\<close>, which is
  returned with the suite. Line 144 appends the suite.
\<close>

definition JUnitReportXML_classname :: "bool \<Rightarrow> Package \<Rightarrow> string" where
  "JUnitReportXML_classname fullPackageClassname pkg =
     (let classname = Package.Name pkg in
      if \<not> fullPackageClassname then
        (let idx = strings_LastIndex classname ''/'' in
         if idx > - 1 \<and> idx < int (length (Package.Name pkg))
         then drop (nat (idx + 1)) (Package.Name pkg) else classname)
      else classname)"

definition JUnitReportXML_testSuite ::
  "platform \<Rightarrow> bool \<Rightarrow> bool \<Rightarrow> string \<Rightarrow> Package \<Rightarrow> JUnitTestSuite \<times> string" where
  "JUnitReportXML_testSuite P fullPackageClassname stripANSIEscape goVersion pkg =
     (let ts = \<lparr>Tests = int (length (Package.Tests pkg)), Failures = 0, Errors = 0, Skipped = 0,
                JUnitTestSuite.Time = formatTime P (Package.Duration pkg),
                JUnitTestSuite.Name = Package.Name pkg,
                Properties = [], TestCases = []\<rparr>;
          classname = JUnitReportXML_classname fullPackageClassname pkg;
          goVersion = (if goVersion = [] then runtime_Version P else goVersion);
          ts = ts\<lparr>Properties := Properties ts @
                 [\<lparr>JUnitProperty.Name = ''go.version'', Value = goVersion\<rparr>]\<rparr>;
          ts = (if CoveragePct pkg \<noteq> [] then
                  ts\<lparr>Properties := Properties ts @
                    [\<lparr>JUnitProperty.Name = ''coverage.statements.pct'', Value = CoveragePct pkg\<rparr>]\<rparr>
                else ts);
          ts = JUnitReportXML_tests P classname stripANSIEscape ts (Package.Tests pkg)
      in (ts, goVersion))"

definition JUnitReportXML_package ::
  "platform \<Rightarrow> bool \<Rightarrow> bool \<Rightarrow> JUnitTestSuites \<times> string \<Rightarrow> Package \<Rightarrow> JUnitTestSuites \<times> string" where
  "JUnitReportXML_package P fullPackageClassname stripANSIEscape st pkg =
     (let (suites, goVersion) = st;
          (ts, goVersion) = JUnitReportXML_testSuite P fullPackageClassname stripANSIEscape goVersion pkg
      in (suites\<lparr>Suites := Suites suites @ [ts]\<rparr>, goVersion))"

fun JUnitReportXML_packages ::
  "platform \<Rightarrow> bool \<Rightarrow> bool \<Rightarrow> JUnitTestSuites \<times> string \<Rightarrow> Package list \<Rightarrow> JUnitTestSuites \<times> string" where
  "JUnitReportXML_packages P fullPackageClassname stripANSIEscape st [] = st"
| "JUnitReportXML_packages P fullPackageClassname stripANSIEscape st (pkg # pkgs) =
     JUnitReportXML_packages P fullPackageClassname stripANSIEscape
       (JUnitReportXML_package P fullPackageClassname stripANSIEscape st pkg) pkgs"

text \<open>The suites assembled by lines 77 to 145, before marshalling.\<close>

definition JUnitReportXML_suites ::
  "platform \<Rightarrow> Report \<Rightarrow> string \<Rightarrow> bool \<Rightarrow> bool \<Rightarrow> JUnitTestSuites" where
  "JUnitReportXML_suites P report goVersion fullPackageClassname stripANSIEscape =
     fst (JUnitReportXML_packages P fullPackageClassname stripANSIEscape
            (\<lparr>Suites = []\<rparr>, goVersion) (Packages report))"

text \<open>
  Lines 147 to 163: marshal, return the error if there is one; otherwise write
  the header, the bytes and a newline through a buffered writer and flush. The
  results of the four writer calls are dropped. The function returns its
  \<^verbatim>\<open>error\<close> (\<open>None\<close> is \<^verbatim>\<open>nil\<close>) and the writer as the calls leave it.
\<close>

definition JUnitReportXML_write ::
  "bool \<Rightarrow> string \<Rightarrow> 'w io_Writer \<Rightarrow> 'w io_Writer" where
  "JUnitReportXML_write noXMLHeader bytes w =
     (let writer = bufio_NewWriter w;
          writer = (if \<not> noXMLHeader then fst (bufio_WriteString writer xml_Header) else writer);
          writer = fst (bufio_Write writer bytes);
          writer = fst (bufio_WriteByte writer (CHR 0x0A));
          writer = fst (bufio_Flush writer)
      in bufio_wr writer)"

definition JUnitReportXML ::
  "platform \<Rightarrow> Report \<Rightarrow> bool \<Rightarrow> string \<Rightarrow> bool \<Rightarrow> bool \<Rightarrow> 'w io_Writer
     \<Rightarrow> error option \<times> 'w io_Writer" where
  "JUnitReportXML P report noXMLHeader goVersion fullPackageClassname stripANSIEscape w =
     (let suites = JUnitReportXML_suites P report goVersion fullPackageClassname stripANSIEscape in
      case xml_MarshalIndent P suites [] [CHR 0x09] of
        Inl err \<Rightarrow> (Some err, w)
      | Inr bytes \<Rightarrow> (None, JUnitReportXML_write noXMLHeader bytes w))"

section \<open>The formatter of the second formatter source\<close>

text \<open>
  The sources hold a second \<^verbatim>\<open>formatter.go\<close> (the file \<^verbatim>\<open>unnamed/part_000\<close>),
  written against the upstream parser package. It has no classname and no
  ANSI option, merges the benchmarks of a package and emits them as test cases.
  Its functions carry the suffix \<open>part_000\<close> where the name is taken.
\<close>

text \<open>
  Go's integer quotient \<^verbatim>\<open>x / y\<close> on signed machine integers truncates towards
  zero; the result wraps where it does not fit. Go panics when \<open>y\<close> is zero:
  \<open>mergeBenchmarks\<close> divides by the number of samples of a name it has seen,
  which is at least one (lemma \<open>mergeBenchmarks_index_nonempty\<close>).
\<close>

definition go_quo :: "'a::len word \<Rightarrow> 'a word \<Rightarrow> 'a word" where
  "go_quo x y = word_of_int (sint x sdiv sint y)"

text \<open>
  First loop of \<^verbatim>\<open>mergeBenchmarks\<close> (lines 179 to 184): \<open>merged\<close> gets a new
  benchmark, holding the name only, for every name not yet in \<open>benchmap\<close>, and
  \<open>benchmap\<close> collects the samples of every name. A missing key of a Go map
  reads as the empty slice.
\<close>

definition benchmap_get :: "(string \<rightharpoonup> Benchmark list) \<Rightarrow> string \<Rightarrow> Benchmark list" where
  "benchmap_get benchmap name = (case benchmap name of None \<Rightarrow> [] | Some bs \<Rightarrow> bs)"

fun mergeBenchmarks_index ::
  "Benchmark list \<times> (string \<rightharpoonup> Benchmark list) \<Rightarrow> Benchmark list
     \<Rightarrow> Benchmark list \<times> (string \<rightharpoonup> Benchmark list)" where
  "mergeBenchmarks_index (merged, benchmap) [] = (merged, benchmap)"
| "mergeBenchmarks_index (merged, benchmap) (bm # benchmarks) =
     (let merged =
            (if benchmap (Benchmark.Name bm) = None
             then merged @ [\<lparr>Benchmark.Name = Benchmark.Name bm, Benchmark.Duration = 0,
                              Bytes = 0, Allocs = 0\<rparr>]
             else merged);
          benchmap = benchmap(Benchmark.Name bm \<mapsto> benchmap_get benchmap (Benchmark.Name bm) @ [bm])
      in mergeBenchmarks_index (merged, benchmap) benchmarks)"

text \<open>The inner loop of lines 187 to 191 adds the fields of the samples to \<open>bm\<close>.\<close>

fun mergeBenchmarks_add :: "Benchmark \<Rightarrow> Benchmark list \<Rightarrow> Benchmark" where
  "mergeBenchmarks_add bm [] = bm"
| "mergeBenchmarks_add bm (b # bs) =
     mergeBenchmarks_add
       (bm\<lparr>Allocs := Allocs bm + Allocs b, Bytes := Bytes bm + Bytes b,
           Benchmark.Duration := Benchmark.Duration bm + Benchmark.Duration b\<rparr>) bs"

text \<open>The body of the second loop (lines 186 to 196), for one entry of \<open>merged\<close>.\<close>

definition mergeBenchmarks_average :: "(string \<rightharpoonup> Benchmark list) \<Rightarrow> Benchmark \<Rightarrow> Benchmark" where
  "mergeBenchmarks_average benchmap bm =
     (let bm = mergeBenchmarks_add bm (benchmap_get benchmap (Benchmark.Name bm));
          n = length (benchmap_get benchmap (Benchmark.Name bm))
      in bm\<lparr>Allocs := go_quo (Allocs bm) (of_nat n), Bytes := go_quo (Bytes bm) (of_nat n),
            Benchmark.Duration := go_quo (Benchmark.Duration bm) (of_nat n)\<rparr>)"

definition mergeBenchmarks :: "Benchmark list \<Rightarrow> Benchmark list" where
  "mergeBenchmarks benchmarks =
     (let (merged, benchmap) = mergeBenchmarks_index ([], Map.empty) benchmarks
      in map (mergeBenchmarks_average benchmap) merged)"

definition formatTime_part_000 :: "platform \<Rightarrow> Duration \<Rightarrow> string" where
  "formatTime_part_000 P d = fmt_Sprintf_Seconds P 3 d"

definition formatBenchmarkTime :: "platform \<Rightarrow> Duration \<Rightarrow> string" where
  "formatBenchmarkTime P d = fmt_Sprintf_Seconds P 9 d"

definition formatOutput_part_000 :: "platform \<Rightarrow> string list \<Rightarrow> string" where
  "formatOutput_part_000 P lines =
     (let joined = strings_Join lines [CHR 0x0A] in stripansi_Strip P joined)"

definition JUnitReportXML_part_000_testCase ::
  "platform \<Rightarrow> string \<Rightarrow> JUnitTestSuite \<Rightarrow> Test \<Rightarrow> JUnitTestSuite \<times> JUnitTestCase" where
  "JUnitReportXML_part_000_testCase P classname ts test =
     (let testCase = \<lparr>Classname = classname, JUnitTestCase.Name = Test.Name test,
                       JUnitTestCase.Time = formatTime_part_000 P (Test.Duration test),
                       SkipMessage = None, Error = None, Failure = None, SystemOut = []\<rparr>
      in case Test.Result test of
           SKIP \<Rightarrow>
             (ts\<lparr>Skipped := Skipped ts + 1\<rparr>,
              testCase\<lparr>SkipMessage := Some \<lparr>JUnitSkipMessage.Message =
                 formatOutput_part_000 P (Test.Output test)\<rparr>\<rparr>)
         | ERROR \<Rightarrow>
             (ts\<lparr>Errors := Errors ts + 1\<rparr>,
              testCase\<lparr>Error := Some \<lparr>JUnitError.Message = ''Error'', JUnitError.Type = [],
                 JUnitError.Contents = formatOutput_part_000 P (Test.Output test)\<rparr>\<rparr>)
         | FAIL \<Rightarrow>
             (ts\<lparr>Failures := Failures ts + 1\<rparr>,
              testCase\<lparr>Failure := Some \<lparr>JUnitFailure.Message = ''Failed'', JUnitFailure.Type = [],
                 JUnitFailure.Contents = formatOutput_part_000 P (Test.Output test)\<rparr>\<rparr>)
         | PASS \<Rightarrow>
             (ts, testCase\<lparr>SystemOut := formatOutput_part_000 P (Test.Output test)\<rparr>))"

definition JUnitReportXML_part_000_test ::
  "platform \<Rightarrow> string \<Rightarrow> JUnitTestSuite \<Rightarrow> Test \<Rightarrow> JUnitTestSuite" where
  "JUnitReportXML_part_000_test P classname ts test =
     (let (ts, testCase) = JUnitReportXML_part_000_testCase P classname ts test
      in ts\<lparr>TestCases := TestCases ts @ [testCase]\<rparr>)"

fun JUnitReportXML_part_000_tests ::
  "platform \<Rightarrow> string \<Rightarrow> JUnitTestSuite \<Rightarrow> Test list \<Rightarrow> JUnitTestSuite" where
  "JUnitReportXML_part_000_tests P classname ts [] = ts"
| "JUnitReportXML_part_000_tests P classname ts (test # tests) =
     JUnitReportXML_part_000_tests P classname
       (JUnitReportXML_part_000_test P classname ts test) tests"

text \<open>The loop over the merged benchmarks (lines 144 to 152).\<close>

definition JUnitReportXML_part_000_benchmarkCase :: "platform \<Rightarrow> string \<Rightarrow> Benchmark \<Rightarrow> JUnitTestCase" where
  "JUnitReportXML_part_000_benchmarkCase P classname benchmark =
     \<lparr>Classname = classname, JUnitTestCase.Name = Benchmark.Name benchmark,
      JUnitTestCase.Time = formatBenchmarkTime P (Benchmark.Duration benchmark),
      SkipMessage = None, Error = None, Failure = None, SystemOut = []\<rparr>"

definition JUnitReportXML_part_000_benchmark ::
  "platform \<Rightarrow> string \<Rightarrow> JUnitTestSuite \<Rightarrow> Benchmark \<Rightarrow> JUnitTestSuite" where
  "JUnitReportXML_part_000_benchmark P classname ts benchmark =
     (let benchmarkCase = JUnitReportXML_part_000_benchmarkCase P classname benchmark
      in ts\<lparr>TestCases := TestCases ts @ [benchmarkCase]\<rparr>)"

fun JUnitReportXML_part_000_benchmarks ::
  "platform \<Rightarrow> string \<Rightarrow> JUnitTestSuite \<Rightarrow> Benchmark list \<Rightarrow> JUnitTestSuite" where
  "JUnitReportXML_part_000_benchmarks P classname ts [] = ts"
| "JUnitReportXML_part_000_benchmarks P classname ts (benchmark # benchmarks) =
     JUnitReportXML_part_000_benchmarks P classname
       (JUnitReportXML_part_000_benchmark P classname ts benchmark) benchmarks"

text \<open>
  The body of the loop over the packages (lines 80 to 155). \<open>pkg\<close> is the loop's
  own copy of the package: the assignment to \<^verbatim>\<open>pkg.Benchmarks\<close> stays local.
  Lines 81 to 152 build the suite, line 154 appends it.
\<close>

definition JUnitReportXML_part_000_classname :: "Package \<Rightarrow> string" where
  "JUnitReportXML_part_000_classname pkg =
     (let classname = Package.Name pkg;
          idx = strings_LastIndex classname ''/''
      in if idx > - 1 \<and> idx < int (length (Package.Name pkg))
         then drop (nat (idx + 1)) (Package.Name pkg) else classname)"

definition JUnitReportXML_part_000_testSuite ::
  "platform \<Rightarrow> string \<Rightarrow> Package \<Rightarrow> JUnitTestSuite \<times> string" where
  "JUnitReportXML_part_000_testSuite P goVersion pkg =
     (let pkg = pkg\<lparr>Benchmarks := mergeBenchmarks (Benchmarks pkg)\<rparr>;
          ts = \<lparr>Tests = int (length (Package.Tests pkg)) + int (length (Benchmarks pkg)),
                Failures = 0, Errors = 0, Skipped = 0,
                JUnitTestSuite.Time = formatTime_part_000 P (Package.Duration pkg),
                JUnitTestSuite.Name = Package.Name pkg,
                Properties = [], TestCases = []\<rparr>;
          classname = JUnitReportXML_part_000_classname pkg;
          goVersion = (if goVersion = [] then runtime_Version P else goVersion);
          ts = ts\<lparr>Properties := Properties ts @
                 [\<lparr>JUnitProperty.Name = ''go.version'', Value = goVersion\<rparr>]\<rparr>;
          ts = (if CoveragePct pkg \<noteq> [] then
                  ts\<lparr>Properties := Properties ts @
                    [\<lparr>JUnitProperty.Name = ''coverage.statements.pct'', Value = CoveragePct pkg\<rparr>]\<rparr>
                else ts);
          ts = JUnitReportXML_part_000_tests P classname ts (Package.Tests pkg);
          ts = JUnitReportXML_part_000_benchmarks P classname ts (Benchmarks pkg)
      in (ts, goVersion))"

definition JUnitReportXML_part_000_package ::
  "platform \<Rightarrow> JUnitTestSuites \<times> string \<Rightarrow> Package \<Rightarrow> JUnitTestSuites \<times> string" where
  "JUnitReportXML_part_000_package P st pkg =
     (let (suites, goVersion) = st;
          (ts, goVersion) = JUnitReportXML_part_000_testSuite P goVersion pkg
      in (suites\<lparr>Suites := Suites suites @ [ts]\<rparr>, goVersion))"

fun JUnitReportXML_part_000_packages ::
  "platform \<Rightarrow> JUnitTestSuites \<times> string \<Rightarrow> Package list \<Rightarrow> JUnitTestSuites \<times> string" where
  "JUnitReportXML_part_000_packages P st [] = st"
| "JUnitReportXML_part_000_packages P st (pkg # pkgs) =
     JUnitReportXML_part_000_packages P (JUnitReportXML_part_000_package P st pkg) pkgs"

definition JUnitReportXML_part_000_suites :: "platform \<Rightarrow> Report \<Rightarrow> string \<Rightarrow> JUnitTestSuites" where
  "JUnitReportXML_part_000_suites P report goVersion =
     fst (JUnitReportXML_part_000_packages P (\<lparr>Suites = []\<rparr>, goVersion) (Packages report))"

definition JUnitReportXML_part_000 ::
  "platform \<Rightarrow> Report \<Rightarrow> bool \<Rightarrow> string \<Rightarrow> 'w io_Writer \<Rightarrow> error option \<times> 'w io_Writer" where
  "JUnitReportXML_part_000 P report noXMLHeader goVersion w =
     (let suites = JUnitReportXML_part_000_suites P report goVersion in
      case xml_MarshalIndent P suites [] [CHR 0x09] of
        Inl err \<Rightarrow> (Some err, w)
      | Inr bytes \<Rightarrow> (None, JUnitReportXML_write noXMLHeader bytes w))"

section \<open>The command (go-junit-report.go)\<close>

text \<open>
  Modelled from the spec: \<^verbatim>\<open>parser.Report.Failures\<close> is not among the sources.
  The specification has the exit status depend on whether "the Report contains
  at least one FAIL or ERROR Test anywhere"; \<open>Report_Failures\<close> counts those tests.
\<close>

definition Report_Failures :: "Report \<Rightarrow> int" where
  "Report_Failures report =
     int (length (filter (\<lambda>t. Test.Result t = FAIL \<or> Test.Result t = ERROR)
                    (concat (map Package.Tests (Packages report)))))"

text \<open>The flag variables of lines 12 to 19.\<close>

record flags =
  noXMLHeader :: bool
  packageName :: string
  goVersionFlag :: string
  setExitCode :: bool
  stripANSIEscape :: bool
  fullPackageClassname :: bool

text \<open>\<^verbatim>\<open>fmt.Printf\<close> on the standard output: one \<^verbatim>\<open>Write\<close>, its results dropped.\<close>

definition fmt_Printf :: "'w io_Writer \<Rightarrow> string \<Rightarrow> 'w io_Writer" where
  "fmt_Printf w s = w\<lparr>io_state := fst (io_Write w (io_state w) s)\<rparr>"

definition error_Error :: "error \<Rightarrow> string" where
  "error_Error e = (case e of errorString s \<Rightarrow> s)"

text \<open>
  \<^verbatim>\<open>main\<close>: \<open>parser_Parse\<close> stands for \<^verbatim>\<open>parser.Parse\<close>, which is not among the
  sources; \<open>NArg\<close> is \<^verbatim>\<open>flag.NArg()\<close>, \<open>stdin\<close> the input, \<open>stdout\<close> the
  standard output. The result is the exit status of the process and the
  standard output as the run leaves it; what goes to the standard error is not
  modelled. A \<^verbatim>\<open>main\<close> that returns exits with status 0.
\<close>

definition main ::
  "platform \<Rightarrow> (string \<Rightarrow> string \<Rightarrow> error + Report) \<Rightarrow> flags \<Rightarrow> nat \<Rightarrow> string \<Rightarrow> 'w io_Writer
     \<Rightarrow> int \<times> 'w io_Writer" where
  "main P parser_Parse fl NArg stdin stdout =
     (if NArg \<noteq> 0 then (1, stdout)
      else
        case parser_Parse stdin (packageName fl) of
          Inl err \<Rightarrow> (1, fmt_Printf stdout (''Error reading input: '' @ error_Error err @ [CHR 0x0A]))
        | Inr report \<Rightarrow>
            (case JUnitReportXML P report (noXMLHeader fl) (goVersionFlag fl)
                    (fullPackageClassname fl) (stripANSIEscape fl) stdout of
               (Some err, stdout) \<Rightarrow>
                 (1, fmt_Printf stdout (''Error writing XML: '' @ error_Error err @ [CHR 0x0A]))
             | (None, stdout) \<Rightarrow>
                 if setExitCode fl \<and> Report_Failures report > 0 then (1, stdout) else (0, stdout)))"

section \<open>Notions of the specification\<close>

text \<open>The number of tests of a list that have a given result.\<close>

definition count_Result :: "Result \<Rightarrow> Test list \<Rightarrow> int" where
  "count_Result r tests = int (length (filter (\<lambda>t. Test.Result t = r) tests))"

text \<open>
  The part of a package name after its last \<open>/\<close>; the whole name when there
  is none.
\<close>

definition after_last_slash :: "string \<Rightarrow> string" where
  "after_last_slash name = rev (takeWhile (\<lambda>c. c \<noteq> CHR ''/'') (rev name))"

text \<open>The version that lines 99 to 102 settle on.\<close>

definition effective_goVersion :: "platform \<Rightarrow> string \<Rightarrow> string" where
  "effective_goVersion P goVersion = (if goVersion = [] then runtime_Version P else goVersion)"

text \<open>
  The test case that lines 110 to 139 build for a test. It does not depend on
  the suite (lemma \<open>testCase_snd\<close>), so it is read off at the zero suite.
\<close>

definition zero_JUnitTestSuite :: JUnitTestSuite where
  "zero_JUnitTestSuite = \<lparr>Tests = 0, Failures = 0, Errors = 0, Skipped = 0,
     JUnitTestSuite.Time = [], JUnitTestSuite.Name = [], Properties = [], TestCases = []\<rparr>"

definition testCase_of :: "platform \<Rightarrow> string \<Rightarrow> bool \<Rightarrow> Test \<Rightarrow> JUnitTestCase" where
  "testCase_of P classname strip test =
     snd (JUnitReportXML_testCase P classname strip zero_JUnitTestSuite test)"

text \<open>The same for the second formatter source.\<close>

definition testCase_of_part_000 :: "platform \<Rightarrow> string \<Rightarrow> Test \<Rightarrow> JUnitTestCase" where
  "testCase_of_part_000 P classname test =
     snd (JUnitReportXML_part_000_testCase P classname zero_JUnitTestSuite test)"

text \<open>
  The distinct names of a list in the order of their first occurrence: the
  head, then the distinct names of the rest without the head.
\<close>

fun distinct_names :: "string list \<Rightarrow> string list" where
  "distinct_names [] = []"
| "distinct_names (name # names) = name # distinct_names (filter (\<lambda>n. n \<noteq> name) names)"

text \<open>The samples recorded under a name, in their order.\<close>

definition samples_of :: "string \<Rightarrow> Benchmark list \<Rightarrow> Benchmark list" where
  "samples_of name benchmarks = filter (\<lambda>b. Benchmark.Name b = name) benchmarks"

text \<open>
  The average of the samples of a name: every field is the sum over the samples
  (in machine arithmetic) divided, with Go's truncating quotient, by their
  number.
\<close>

definition average_Benchmark :: "Benchmark list \<Rightarrow> string \<Rightarrow> Benchmark" where
  "average_Benchmark benchmarks name =
     (let samples = samples_of name benchmarks; n = length samples in
      \<lparr>Benchmark.Name = name,
       Benchmark.Duration = go_quo (sum_list (map Benchmark.Duration samples)) (of_nat n),
       Bytes = go_quo (sum_list (map Bytes samples)) (of_nat n),
       Allocs = go_quo (sum_list (map Allocs samples)) (of_nat n)\<rparr>)"

text \<open>\<^verbatim>\<open>&parser.Benchmark{Name: name}\<close>: the other fields are zero.\<close>

definition new_Benchmark :: "string \<Rightarrow> Benchmark" where
  "new_Benchmark name = \<lparr>Benchmark.Name = name, Benchmark.Duration = 0, Bytes = 0, Allocs = 0\<rparr>"

text \<open>The lines of an output, joined with newline characters.\<close>

fun join_lines :: "string list \<Rightarrow> string" where
  "join_lines [] = []"
| "join_lines (l # ls) = l @ concat (map (\<lambda>l'. CHR 0x0A # l') ls)"

text \<open>
  The output text that a test case carries: the message of its \<^verbatim>\<open><skipped>\<close>
  element, or the contents of its \<^verbatim>\<open><error>\<close> or \<^verbatim>\<open><failure>\<close> element, or its
  comment.
\<close>

definition testcase_output :: "JUnitTestCase \<Rightarrow> string" where
  "testcase_output tc =
     (case SkipMessage tc of
        Some m \<Rightarrow> JUnitSkipMessage.Message m
      | None \<Rightarrow>
          (case Error tc of
             Some e \<Rightarrow> JUnitError.Contents e
           | None \<Rightarrow>
               (case Failure tc of
                  Some f \<Rightarrow> JUnitFailure.Contents f
                | None \<Rightarrow> SystemOut tc)))"

section \<open>Sample values\<close>

text \<open>
  Concrete stand-ins for the outside functions, and a report, used to evaluate
  the formatter. \<open>sample_Strip\<close> drops the escape byte; \<open>sample_Sprintf_Seconds\<close>
  prints a non-negative duration in seconds, cut after \<open>n\<close> decimals;
  \<open>sample_MarshalIndent\<close> refuses a comment that holds two dashes in a row, as
  \<^verbatim>\<open>encoding/xml\<close> does, and otherwise lists the names of suites and cases.
\<close>

definition sample_Strip :: "string \<Rightarrow> string" where
  "sample_Strip s = filter (\<lambda>c. c \<noteq> CHR 0x1B) s"

primrec dec_digits :: "nat \<Rightarrow> nat \<Rightarrow> string" where
  "dec_digits 0 n = []"
| "dec_digits (Suc k) n = dec_digits k (n div 10) @ [''0123456789'' ! (n mod 10)]"

definition sample_Sprintf_Seconds :: "nat \<Rightarrow> Duration \<Rightarrow> string" where
  "sample_Sprintf_Seconds n d =
     dec_digits 1 (unat d div 1000000000) @ ''.'' @ take n (dec_digits 9 (unat d mod 1000000000))"

fun has_dashes :: "string \<Rightarrow> bool" where
  "has_dashes (a # b # cs) = ((a = CHR ''-'' \<and> b = CHR ''-'') \<or> has_dashes (b # cs))"
| "has_dashes cs = False"

definition sample_MarshalIndent :: "JUnitTestSuites \<Rightarrow> string \<Rightarrow> string \<Rightarrow> error + string" where
  "sample_MarshalIndent v prefix indent =
     (if list_ex (\<lambda>ts. list_ex (\<lambda>tc. has_dashes (SystemOut tc)) (TestCases ts)) (Suites v)
      then Inl (errorString ''xml: comments must not contain two dashes'')
      else Inr (concat (map (\<lambda>ts. ''<testsuite '' @ JUnitTestSuite.Name ts @ ''>'' @
                  concat (map (\<lambda>tc. ''<testcase '' @ JUnitTestCase.Name tc @ ''/>'') (TestCases ts)))
                (Suites v))))"

definition sample_platform :: platform where
  "sample_platform = \<lparr>runtime_Version = ''go1.13'', stripansi_Strip = sample_Strip,
     fmt_Sprintf_Seconds = sample_Sprintf_Seconds, xml_MarshalIndent = sample_MarshalIndent\<rparr>"

text \<open>A writer that keeps what it is given, and one that fails every write.\<close>

definition bytes_Buffer :: "string io_Writer" where
  "bytes_Buffer = \<lparr>io_Write = (\<lambda>s p. (s @ p, length p, None)), io_state = []\<rparr>"

definition closed_Writer :: "string io_Writer" where
  "closed_Writer = \<lparr>io_Write = (\<lambda>s p. (s, 0, Some (errorString ''closed''))), io_state = []\<rparr>"

definition sample_tests :: "Test list" where
  "sample_tests =
     [\<lparr>Test.Name = ''TestOne'', Test.Duration = 20000000, Result = FAIL, Output = [''a'', ''b'']\<rparr>,
      \<lparr>Test.Name = ''TestTwo'', Test.Duration = 130000000, Result = PASS, Output = [''c'']\<rparr>,
      \<lparr>Test.Name = ''TestThree'', Test.Duration = 0, Result = SKIP, Output = [''d'']\<rparr>,
      \<lparr>Test.Name = ''TestFour'', Test.Duration = 0, Result = ERROR, Output = []\<rparr>]"

definition sample_benchmarks :: "Benchmark list" where
  "sample_benchmarks =
     [\<lparr>Benchmark.Name = ''BenchmarkNew'', Benchmark.Duration = 100, Bytes = 80, Allocs = 3\<rparr>,
      \<lparr>Benchmark.Name = ''BenchmarkFew'', Benchmark.Duration = 50, Bytes = 20, Allocs = 1\<rparr>,
      \<lparr>Benchmark.Name = ''BenchmarkNew'', Benchmark.Duration = 301, Bytes = 81, Allocs = 4\<rparr>]"

definition sample_package :: Package where
  "sample_package = \<lparr>Package.Name = ''package/name'', Package.Duration = 151000000,
     Tests = sample_tests, Benchmarks = sample_benchmarks, CoveragePct = []\<rparr>"

definition sample_report :: Report where
  "sample_report = \<lparr>Packages = [sample_package]\<rparr>"

text \<open>A report whose only test printed an escape sequence.\<close>

definition colour_report :: Report where
  "colour_report = \<lparr>Packages =
     [\<lparr>Package.Name = ''pkg'', Package.Duration = 0,
       Tests = [\<lparr>Test.Name = ''TestColour'', Test.Duration = 0, Result = PASS,
                  Output = [CHR 0x1B # ''[31mred'', ''plain'']\<rparr>],
       Benchmarks = [], CoveragePct = []\<rparr>]\<rparr>"

section \<open>The standard string functions\<close>

lemma take1_drop_eq:
  "take (Suc 0) (drop j s) = [c] \<longleftrightarrow> j < length s \<and> s ! j = c"
proof (cases "j < length s")
  case True
  then have "drop j s = s ! j # drop (Suc j) s"
    by (simp add: Cons_nth_drop_Suc)
  then show ?thesis using True by simp
next
  case False
  then show ?thesis by simp
qed

lemma LastIndex_from_none:
  "i < length s \<Longrightarrow> \<forall>j\<le>i. s ! j \<noteq> c \<Longrightarrow> LastIndex_from s [c] i = - 1"
proof (induction i)
  case 0
  then show ?case using take1_drop_eq [of 0 s c] by simp
next
  case (Suc i)
  then show ?case using take1_drop_eq [of "Suc i" s c] by simp
qed

lemma LastIndex_from_found:
  "i < length s \<Longrightarrow> k \<le> i \<Longrightarrow> s ! k = c \<Longrightarrow> \<forall>j. k < j \<and> j \<le> i \<longrightarrow> s ! j \<noteq> c
     \<Longrightarrow> LastIndex_from s [c] i = int k"
proof (induction i)
  case 0
  then show ?case using take1_drop_eq [of 0 s c] by simp
next
  case (Suc i)
  show ?case
  proof (cases "k = Suc i")
    case True
    then show ?thesis using Suc.prems take1_drop_eq [of "Suc i" s c] by simp
  next
    case False
    then have "k \<le> i" using Suc.prems by simp
    moreover have "s ! Suc i \<noteq> c" using Suc.prems False by simp
    ultimately show ?thesis
      using Suc.IH Suc.prems take1_drop_eq [of "Suc i" s c] by simp
  qed
qed

lemma strings_LastIndex_absent:
  "c \<notin> set s \<Longrightarrow> strings_LastIndex s [c] = - 1"
proof (cases s)
  case Nil
  then show ?thesis by (simp add: strings_LastIndex_def)
next
  case (Cons a as)
  assume "c \<notin> set s"
  then have "\<forall>j\<le>length s - 1. s ! j \<noteq> c"
    using Cons by (metis One_nat_def Suc_pred le_imp_less_Suc length_greater_0_conv list.distinct(1) nth_mem)
  then show ?thesis
    using Cons LastIndex_from_none [of "length s - 1" s c] by (simp add: strings_LastIndex_def)
qed

lemma strings_LastIndex_split:
  assumes "c \<notin> set zs"
  shows "strings_LastIndex (ys @ c # zs) [c] = int (length ys)"
proof -
  let ?s = "ys @ c # zs"
  have "\<forall>j. length ys < j \<and> j \<le> length ?s - 1 \<longrightarrow> ?s ! j \<noteq> c"
  proof (intro allI impI)
    fix j assume j: "length ys < j \<and> j \<le> length ?s - 1"
    then have "?s ! j = zs ! (j - Suc (length ys))"
      by (simp add: nth_append nth_Cons')
    moreover have "j - Suc (length ys) < length zs" using j by auto
    ultimately show "?s ! j \<noteq> c" using assms by (metis nth_mem)
  qed
  then have "LastIndex_from ?s [c] (length ?s - 1) = int (length ys)"
    by (intro LastIndex_from_found) simp_all
  then show ?thesis
    by (simp add: strings_LastIndex_def)
qed

lemma after_last_slash_absent:
  assumes "CHR ''/'' \<notin> set s"
  shows "after_last_slash s = s"
proof -
  have "takeWhile (\<lambda>c. c \<noteq> CHR ''/'') (rev s) = rev s"
    using assms by (auto simp add: takeWhile_eq_all_conv)
  then show ?thesis unfolding after_last_slash_def by (simp only: rev_rev_ident)
qed

lemma after_last_slash_split:
  assumes "CHR ''/'' \<notin> set zs"
  shows "after_last_slash (ys @ CHR ''/'' # zs) = zs"
proof -
  have "takeWhile (\<lambda>c. c \<noteq> CHR ''/'') (rev zs @ CHR ''/'' # rev ys) = rev zs"
    using assms by (subst takeWhile_tail) auto
  then show ?thesis by (simp add: after_last_slash_def)
qed

lemma classname_eq:
  "JUnitReportXML_classname full pkg =
     (if full then Package.Name pkg else after_last_slash (Package.Name pkg))"
proof (cases "CHR ''/'' \<in> set (Package.Name pkg)")
  case True
  then obtain ys zs where s: "Package.Name pkg = ys @ CHR ''/'' # zs" "CHR ''/'' \<notin> set zs"
    using split_list_last by fastforce
  then show ?thesis
    by (simp add: JUnitReportXML_classname_def Let_def strings_LastIndex_split after_last_slash_split
        nat_add_distrib)
next
  case False
  then show ?thesis
    by (simp add: JUnitReportXML_classname_def Let_def strings_LastIndex_absent after_last_slash_absent)
qed


section \<open>The loops of formatter.go as maps\<close>

lemma testCase_snd:
  "snd (JUnitReportXML_testCase P cn s ts t) = testCase_of P cn s t"
  by (simp add: testCase_of_def JUnitReportXML_testCase_def Let_def split: Result.split)

lemma testCase_fst:
  "fst (JUnitReportXML_testCase P cn s ts t) =
     ts\<lparr>Failures := Failures ts + count_Result FAIL [t],
        Errors := Errors ts + count_Result ERROR [t],
        Skipped := Skipped ts + count_Result SKIP [t]\<rparr>"
  by (simp add: JUnitReportXML_testCase_def Let_def count_Result_def split: Result.split)

lemma count_Result_Cons:
  "count_Result r (t # tests) = count_Result r [t] + count_Result r tests"
  by (simp add: count_Result_def)

lemma tests_loop:
  "JUnitReportXML_tests P cn s ts tests =
     ts\<lparr>Failures := Failures ts + count_Result FAIL tests,
        Errors := Errors ts + count_Result ERROR tests,
        Skipped := Skipped ts + count_Result SKIP tests,
        TestCases := TestCases ts @ map (testCase_of P cn s) tests\<rparr>"
proof (induction tests arbitrary: ts)
  case Nil
  show ?case by (simp add: count_Result_def)
next
  case (Cons t tests)
  show ?case
    by (simp add: Cons.IH JUnitReportXML_test_def split_beta testCase_fst testCase_snd
        count_Result_Cons [of _ t tests] add.assoc)
qed

lemma effective_goVersion_idem:
  "effective_goVersion P (effective_goVersion P gv) = effective_goVersion P gv"
  by (simp add: effective_goVersion_def)

lemma testSuite_snd:
  "snd (JUnitReportXML_testSuite P full s gv pkg) = effective_goVersion P gv"
  by (simp add: JUnitReportXML_testSuite_def Let_def effective_goVersion_def)

lemma testSuite_fst:
  "fst (JUnitReportXML_testSuite P full s gv pkg) =
     \<lparr>Tests = int (length (Package.Tests pkg)),
      Failures = count_Result FAIL (Package.Tests pkg),
      Errors = count_Result ERROR (Package.Tests pkg),
      Skipped = count_Result SKIP (Package.Tests pkg),
      JUnitTestSuite.Time = formatTime P (Package.Duration pkg),
      JUnitTestSuite.Name = Package.Name pkg,
      Properties = \<lparr>JUnitProperty.Name = ''go.version'', Value = effective_goVersion P gv\<rparr> #
        (if CoveragePct pkg \<noteq> [] then
           [\<lparr>JUnitProperty.Name = ''coverage.statements.pct'', Value = CoveragePct pkg\<rparr>]
         else []),
      TestCases = map (testCase_of P (JUnitReportXML_classname full pkg) s) (Package.Tests pkg)\<rparr>"
  by (simp add: JUnitReportXML_testSuite_def Let_def tests_loop effective_goVersion_def)

lemma testSuite_effective:
  "fst (JUnitReportXML_testSuite P full s (effective_goVersion P gv) pkg) =
   fst (JUnitReportXML_testSuite P full s gv pkg)"
  by (simp only: testSuite_fst effective_goVersion_idem)

lemma packages_loop:
  "fst (JUnitReportXML_packages P full s (suites, gv) pkgs) =
     suites\<lparr>Suites := Suites suites @ map (\<lambda>pkg. fst (JUnitReportXML_testSuite P full s gv pkg)) pkgs\<rparr>"
proof (induction pkgs arbitrary: suites gv)
  case Nil
  show ?case by simp
next
  case (Cons pkg pkgs)
  show ?case
    by (simp add: JUnitReportXML_package_def split_beta Cons.IH testSuite_snd testSuite_effective)
qed

lemma suites_eq:
  "Suites (JUnitReportXML_suites P report gv full s) =
     map (\<lambda>pkg. fst (JUnitReportXML_testSuite P full s gv pkg)) (Packages report)"
  by (simp add: JUnitReportXML_suites_def packages_loop)

lemma testCase_of_Classname: "Classname (testCase_of P cn s t) = cn"
  by (simp add: testCase_of_def JUnitReportXML_testCase_def Let_def split: Result.split)

section \<open>The loops of the second formatter source as maps\<close>

lemma part_000_testCase_snd:
  "snd (JUnitReportXML_part_000_testCase P cn ts t) = testCase_of_part_000 P cn t"
  by (simp add: testCase_of_part_000_def JUnitReportXML_part_000_testCase_def Let_def split: Result.split)

lemma part_000_testCase_fst:
  "fst (JUnitReportXML_part_000_testCase P cn ts t) =
     ts\<lparr>Failures := Failures ts + count_Result FAIL [t],
        Errors := Errors ts + count_Result ERROR [t],
        Skipped := Skipped ts + count_Result SKIP [t]\<rparr>"
  by (simp add: JUnitReportXML_part_000_testCase_def Let_def count_Result_def split: Result.split)

lemma part_000_tests_loop:
  "JUnitReportXML_part_000_tests P cn ts tests =
     ts\<lparr>Failures := Failures ts + count_Result FAIL tests,
        Errors := Errors ts + count_Result ERROR tests,
        Skipped := Skipped ts + count_Result SKIP tests,
        TestCases := TestCases ts @ map (testCase_of_part_000 P cn) tests\<rparr>"
proof (induction tests arbitrary: ts)
  case Nil
  show ?case by (simp add: count_Result_def)
next
  case (Cons t tests)
  show ?case
    by (simp add: Cons.IH JUnitReportXML_part_000_test_def split_beta part_000_testCase_fst
        part_000_testCase_snd count_Result_Cons [of _ t tests] add.assoc)
qed

lemma part_000_benchmarks_loop:
  "JUnitReportXML_part_000_benchmarks P cn ts bs =
     ts\<lparr>TestCases := TestCases ts @ map (JUnitReportXML_part_000_benchmarkCase P cn) bs\<rparr>"
  by (induction bs arbitrary: ts) (simp_all add: JUnitReportXML_part_000_benchmark_def)

lemma part_000_classname_eq:
  "JUnitReportXML_part_000_classname pkg = after_last_slash (Package.Name pkg)"
proof (cases "CHR ''/'' \<in> set (Package.Name pkg)")
  case True
  then obtain ys zs where s: "Package.Name pkg = ys @ CHR ''/'' # zs" "CHR ''/'' \<notin> set zs"
    using split_list_last by fastforce
  then show ?thesis
    by (simp add: JUnitReportXML_part_000_classname_def Let_def strings_LastIndex_split
        after_last_slash_split nat_add_distrib)
next
  case False
  then show ?thesis
    by (simp add: JUnitReportXML_part_000_classname_def Let_def strings_LastIndex_absent
        after_last_slash_absent)
qed

lemma part_000_testSuite_snd:
  "snd (JUnitReportXML_part_000_testSuite P gv pkg) = effective_goVersion P gv"
  by (simp add: JUnitReportXML_part_000_testSuite_def Let_def effective_goVersion_def)

lemma part_000_testSuite_fst:
  "fst (JUnitReportXML_part_000_testSuite P gv pkg) =
     \<lparr>Tests = int (length (Package.Tests pkg)) + int (length (mergeBenchmarks (Benchmarks pkg))),
      Failures = count_Result FAIL (Package.Tests pkg),
      Errors = count_Result ERROR (Package.Tests pkg),
      Skipped = count_Result SKIP (Package.Tests pkg),
      JUnitTestSuite.Time = formatTime_part_000 P (Package.Duration pkg),
      JUnitTestSuite.Name = Package.Name pkg,
      Properties = \<lparr>JUnitProperty.Name = ''go.version'', Value = effective_goVersion P gv\<rparr> #
        (if CoveragePct pkg \<noteq> [] then
           [\<lparr>JUnitProperty.Name = ''coverage.statements.pct'', Value = CoveragePct pkg\<rparr>]
         else []),
      TestCases = map (testCase_of_part_000 P (JUnitReportXML_part_000_classname pkg)) (Package.Tests pkg) @
        map (JUnitReportXML_part_000_benchmarkCase P (JUnitReportXML_part_000_classname pkg))
          (mergeBenchmarks (Benchmarks pkg))\<rparr>"
  by (simp add: JUnitReportXML_part_000_testSuite_def Let_def part_000_tests_loop
      part_000_benchmarks_loop effective_goVersion_def JUnitReportXML_part_000_classname_def)

lemma part_000_testSuite_effective:
  "fst (JUnitReportXML_part_000_testSuite P (effective_goVersion P gv) pkg) =
   fst (JUnitReportXML_part_000_testSuite P gv pkg)"
  by (simp only: part_000_testSuite_fst effective_goVersion_idem)

lemma part_000_packages_loop:
  "fst (JUnitReportXML_part_000_packages P (suites, gv) pkgs) =
     suites\<lparr>Suites := Suites suites @ map (\<lambda>pkg. fst (JUnitReportXML_part_000_testSuite P gv pkg)) pkgs\<rparr>"
proof (induction pkgs arbitrary: suites gv)
  case Nil
  show ?case by simp
next
  case (Cons pkg pkgs)
  show ?case
    by (simp add: JUnitReportXML_part_000_package_def split_beta Cons.IH part_000_testSuite_snd
        part_000_testSuite_effective)
qed

lemma part_000_suites_eq:
  "Suites (JUnitReportXML_part_000_suites P report gv) =
     map (\<lambda>pkg. fst (JUnitReportXML_part_000_testSuite P gv pkg)) (Packages report)"
  by (simp add: JUnitReportXML_part_000_suites_def part_000_packages_loop)


lemma mergeBenchmarks_add_eq:
  "mergeBenchmarks_add bm bs =
     bm\<lparr>Allocs := Allocs bm + sum_list (map Allocs bs),
        Bytes := Bytes bm + sum_list (map Bytes bs),
        Benchmark.Duration := Benchmark.Duration bm + sum_list (map Benchmark.Duration bs)\<rparr>"
  by (induction bs arbitrary: bm) (simp_all add: add.assoc)

lemma mergeBenchmarks_index_merged:
  "fst (mergeBenchmarks_index (merged, benchmap) bs) =
     merged @ map new_Benchmark
       (distinct_names (filter (\<lambda>n. benchmap n = None) (map Benchmark.Name bs)))"
proof (induction bs arbitrary: merged benchmap)
  case Nil
  show ?case by simp
next
  case (Cons bm bs)
  show ?case
  proof (cases "benchmap (Benchmark.Name bm) = None")
    case True
    have "filter (\<lambda>n. (benchmap(Benchmark.Name bm \<mapsto> benchmap_get benchmap (Benchmark.Name bm) @ [bm])) n = None)
            (map Benchmark.Name bs) =
          filter (\<lambda>n. n \<noteq> Benchmark.Name bm) (filter (\<lambda>n. benchmap n = None) (map Benchmark.Name bs))"
      by (induction bs) auto
    then show ?thesis using True
      by (simp add: Cons.IH Let_def new_Benchmark_def)
  next
    case False
    then obtain y where y: "benchmap (Benchmark.Name bm) = Some y"
      by auto
    have "filter (\<lambda>n. (benchmap(Benchmark.Name bm \<mapsto> benchmap_get benchmap (Benchmark.Name bm) @ [bm])) n = None)
            (map Benchmark.Name bs) =
          filter (\<lambda>n. benchmap n = None) (map Benchmark.Name bs)"
      using y by (induction bs) auto
    then show ?thesis
      by (simp add: Cons.IH Let_def y)
  qed
qed

lemma mergeBenchmarks_index_benchmap:
  "benchmap_get (snd (mergeBenchmarks_index (merged, benchmap) bs)) name =
     benchmap_get benchmap name @ samples_of name bs"
proof (induction bs arbitrary: merged benchmap)
  case Nil
  show ?case by (simp add: samples_of_def)
next
  case (Cons bm bs)
  let ?merged = "if benchmap (Benchmark.Name bm) = None
                 then merged @ [\<lparr>Benchmark.Name = Benchmark.Name bm, Benchmark.Duration = 0,
                                  Bytes = 0, Allocs = 0\<rparr>]
                 else merged"
  let ?benchmap = "benchmap(Benchmark.Name bm \<mapsto> benchmap_get benchmap (Benchmark.Name bm) @ [bm])"
  have "mergeBenchmarks_index (merged, benchmap) (bm # bs) = mergeBenchmarks_index (?merged, ?benchmap) bs"
    by (simp add: Let_def)
  then have "benchmap_get (snd (mergeBenchmarks_index (merged, benchmap) (bm # bs))) name =
             benchmap_get ?benchmap name @ samples_of name bs"
    by (simp only: Cons.IH)
  moreover have "benchmap_get ?benchmap name = benchmap_get benchmap name @ samples_of name [bm]"
    by (simp add: benchmap_get_def samples_of_def)
  ultimately show ?case
    by (simp add: samples_of_def)
qed

lemma mergeBenchmarks_eq:
  "mergeBenchmarks bs = map (average_Benchmark bs) (distinct_names (map Benchmark.Name bs))"
proof -
  obtain merged benchmap where mb: "mergeBenchmarks_index ([], Map.empty) bs = (merged, benchmap)"
    by (cases "mergeBenchmarks_index ([], Map.empty) bs")
  have merged: "merged = map new_Benchmark (distinct_names (map Benchmark.Name bs))"
    using mergeBenchmarks_index_merged [of "[]" Map.empty bs] mb by simp
  have get: "benchmap_get benchmap name = samples_of name bs" for name
    using mergeBenchmarks_index_benchmap [of "[]" Map.empty bs name] mb
    by (simp add: benchmap_get_def)
  have "mergeBenchmarks_average benchmap (new_Benchmark name) = average_Benchmark bs name" for name
    by (simp add: mergeBenchmarks_average_def average_Benchmark_def Let_def get
        mergeBenchmarks_add_eq new_Benchmark_def)
  then show ?thesis
    by (simp add: mergeBenchmarks_def mb merged)
qed

lemma set_distinct_names: "set (distinct_names names) = set names"
  by (induction names rule: distinct_names.induct) auto

lemma distinct_distinct_names: "distinct (distinct_names names)"
  by (induction names rule: distinct_names.induct) (auto simp: set_distinct_names)

lemma distinct_names_distinct: "distinct names \<Longrightarrow> distinct_names names = names"
proof (induction names)
  case Nil
  show ?case by simp
next
  case (Cons n names)
  then have "filter (\<lambda>m. m \<noteq> n) names = names"
    by (auto simp: filter_id_conv)
  with Cons show ?case by simp
qed

lemma samples_of_nonempty:
  "name \<in> set (map Benchmark.Name bs) \<Longrightarrow> samples_of name bs \<noteq> []"
  by (auto simp: samples_of_def filter_empty_conv)

lemma mergeBenchmarks_index_nonempty:
  assumes "bm \<in> set (fst (mergeBenchmarks_index ([], Map.empty) bs))"
  shows "benchmap_get (snd (mergeBenchmarks_index ([], Map.empty) bs)) (Benchmark.Name bm) \<noteq> []"
proof -
  from assms have "Benchmark.Name bm \<in> set (map Benchmark.Name bs)"
    using mergeBenchmarks_index_merged [of "[]" Map.empty bs]
    by (auto simp: set_distinct_names new_Benchmark_def)
  then have "samples_of (Benchmark.Name bm) bs \<noteq> []"
    by (rule samples_of_nonempty)
  then show ?thesis
    using mergeBenchmarks_index_benchmap [of "[]" Map.empty bs "Benchmark.Name bm"]
    by (simp add: benchmap_get_def)
qed

section \<open>Go's quotient\<close>

lemma go_quo_one: "go_quo (x :: 64 word) 1 = x"
proof -
  have "sint x sdiv 1 = sint x"
    by (simp add: signed_divide_int_def mult_sgn_abs)
  then show ?thesis
    by (simp add: go_quo_def)
qed

lemma sint_of_nat_64:
  assumes "n < 2 ^ 63"
  shows "sint (of_nat n :: 64 word) = int n"
proof -
  have "sint (of_nat n :: 64 word) = signed_take_bit 63 (int n)"
    by (simp add: signed_of_nat)
  also have "\<dots> = int n"
    using assms by (intro signed_take_bit_int_eq_self) auto
  finally show ?thesis .
qed

lemma sdiv_bounds:
  fixes a :: int
  assumes "0 < b"
  shows "- \<bar>a\<bar> \<le> a sdiv b" and "a sdiv b \<le> \<bar>a\<bar>"
proof -
  have "\<bar>a\<bar> div b \<le> \<bar>a\<bar> div 1"
    using assms by (intro zdiv_mono2) simp_all
  then have "\<bar>a\<bar> div b \<le> \<bar>a\<bar>"
    by simp
  moreover have "0 \<le> \<bar>a\<bar> div b"
    using assms by (simp add: pos_imp_zdiv_nonneg_iff)
  ultimately show "- \<bar>a\<bar> \<le> a sdiv b" and "a sdiv b \<le> \<bar>a\<bar>"
    using assms by (auto simp add: signed_divide_int_def sgn_if)
qed

lemma go_quo_truncates:
  fixes x :: "64 word"
  assumes "0 < n" and "n < 2 ^ 63"
  shows "sint (go_quo x (of_nat n)) = sint x sdiv int n"
proof -
  have lo: "- (2 ^ 63) \<le> sint x" using sint_ge [of x] by simp
  have hi: "sint x < 2 ^ 63" using sint_lt [of x] by simp
  have b: "- \<bar>sint x\<bar> \<le> sint x sdiv int n" "sint x sdiv int n \<le> \<bar>sint x\<bar>"
    using sdiv_bounds [of "int n" "sint x"] assms by simp_all
  have "- (2 ^ 63) \<le> sint x sdiv int n" using lo hi b by linarith
  moreover have "sint x sdiv int n < 2 ^ 63"
  proof (cases "sint x = - (2 ^ 63)")
    case True
    then have "sint x sdiv int n \<le> 0"
      using assms by (simp add: signed_divide_int_def sgn_if pos_imp_zdiv_nonneg_iff)
    then show ?thesis by simp
  next
    case False
    then show ?thesis using lo hi b by linarith
  qed
  ultimately have "signed_take_bit 63 (sint x sdiv int n) = sint x sdiv int n"
    by (intro signed_take_bit_int_eq_self) simp_all
  then show ?thesis
    using assms by (simp add: go_quo_def sint_of_nat_64 sint_sbintrunc')
qed

section \<open>The claims\<close>

text \<open>
  Claim C5. For every package, the suite at the package's position has one test
  case per test, and every test case of that suite has as classname the full
  package name when \<^verbatim>\<open>fullPackageClassname\<close> is set, and otherwise the part of
  the package name after its last \<open>/\<close> (the whole name when it has none).
\<close>

theorem testcase_classname:
  "length (Suites (JUnitReportXML_suites P report gv full strip)) = length (Packages report) \<and>
   (\<forall>i < length (Packages report).
      length (TestCases (Suites (JUnitReportXML_suites P report gv full strip) ! i)) =
        length (Package.Tests (Packages report ! i)) \<and>
      (\<forall>tc \<in> set (TestCases (Suites (JUnitReportXML_suites P report gv full strip) ! i)).
         Classname tc =
           (if full then Package.Name (Packages report ! i)
            else after_last_slash (Package.Name (Packages report ! i)))))"
  by (auto simp add: suites_eq testSuite_fst testCase_of_Classname classname_eq)

theorem testcase_classname_witness:
  "0 < length (Packages sample_report) \<and>
   length (TestCases (Suites (JUnitReportXML_suites sample_platform sample_report [] False True) ! 0)) = 4 \<and>
   list_all (\<lambda>tc. Classname tc = ''name'')
     (TestCases (Suites (JUnitReportXML_suites sample_platform sample_report [] False True) ! 0))"
proof -
  have len: "0 < length (Packages sample_report)"
    by (simp add: sample_report_def)
  have name: "after_last_slash (Package.Name (Packages sample_report ! 0)) = ''name''"
    by (simp add: sample_report_def sample_package_def after_last_slash_def)
  from testcase_classname [of sample_platform sample_report "[]" False True] len name
  show ?thesis
    by (simp add: sample_report_def sample_package_def sample_tests_def list_all_iff)
qed

text \<open>
  Claim C9. The error that \<^verbatim>\<open>JUnitReportXML\<close> returns is the error of
  \<^verbatim>\<open>xml.MarshalIndent\<close> on the assembled suites, and \<^verbatim>\<open>nil\<close> when marshalling
  succeeds. This holds for every writer: what the writer does with the bytes,
  failing included, has no part in the returned error.
\<close>

theorem JUnitReportXML_error_iff_marshal:
  "fst (JUnitReportXML P report noHeader gv full strip w) =
     (case xml_MarshalIndent P (JUnitReportXML_suites P report gv full strip) [] [CHR 0x09] of
        Inl err \<Rightarrow> Some err
      | Inr bytes \<Rightarrow> None)"
  by (simp add: JUnitReportXML_def Let_def split: sum.split)

lemma average_Benchmark_sint:
  assumes "name \<in> set (map Benchmark.Name benchmarks)"
      and "length (samples_of name benchmarks) < 2 ^ 63"
  shows "sint (Benchmark.Duration (average_Benchmark benchmarks name)) =
           sint (sum_list (map Benchmark.Duration (samples_of name benchmarks)))
             sdiv int (length (samples_of name benchmarks))"
    and "sint (Bytes (average_Benchmark benchmarks name)) =
           sint (sum_list (map Bytes (samples_of name benchmarks)))
             sdiv int (length (samples_of name benchmarks))"
    and "sint (Allocs (average_Benchmark benchmarks name)) =
           sint (sum_list (map Allocs (samples_of name benchmarks)))
             sdiv int (length (samples_of name benchmarks))"
proof -
  have "0 < length (samples_of name benchmarks)"
    using samples_of_nonempty [OF assms(1)] by simp
  then show "sint (Benchmark.Duration (average_Benchmark benchmarks name)) =
           sint (sum_list (map Benchmark.Duration (samples_of name benchmarks)))
             sdiv int (length (samples_of name benchmarks))"
    and "sint (Bytes (average_Benchmark benchmarks name)) =
           sint (sum_list (map Bytes (samples_of name benchmarks)))
             sdiv int (length (samples_of name benchmarks))"
    and "sint (Allocs (average_Benchmark benchmarks name)) =
           sint (sum_list (map Allocs (samples_of name benchmarks)))
             sdiv int (length (samples_of name benchmarks))"
    using assms(2) by (simp_all add: average_Benchmark_def Let_def go_quo_truncates)
qed

text \<open>
  Claim C7. \<^verbatim>\<open>mergeBenchmarks\<close> yields one benchmark per distinct name, in the
  order of first occurrence; its \<open>Duration\<close>, \<open>Bytes\<close> and \<open>Allocs\<close> are the sums
  of the field over the samples of that name, divided by the number of samples
  with Go's quotient. Every name has at least one sample, and (for fewer than
  \<open>2 ^ 63\<close> samples) the quotient read as a signed number is the truncating
  division of the signed sum.
\<close>

theorem mergeBenchmarks_averages:
  "mergeBenchmarks benchmarks =
     map (average_Benchmark benchmarks) (distinct_names (map Benchmark.Name benchmarks)) \<and>
   (\<forall>name \<in> set (map Benchmark.Name benchmarks).
      0 < length (samples_of name benchmarks) \<and>
      (length (samples_of name benchmarks) < 2 ^ 63 \<longrightarrow>
         sint (Benchmark.Duration (average_Benchmark benchmarks name)) =
           sint (sum_list (map Benchmark.Duration (samples_of name benchmarks)))
             sdiv int (length (samples_of name benchmarks)) \<and>
         sint (Bytes (average_Benchmark benchmarks name)) =
           sint (sum_list (map Bytes (samples_of name benchmarks)))
             sdiv int (length (samples_of name benchmarks)) \<and>
         sint (Allocs (average_Benchmark benchmarks name)) =
           sint (sum_list (map Allocs (samples_of name benchmarks)))
             sdiv int (length (samples_of name benchmarks))))"
proof (intro conjI ballI impI)
  show "mergeBenchmarks benchmarks =
     map (average_Benchmark benchmarks) (distinct_names (map Benchmark.Name benchmarks))"
    by (rule mergeBenchmarks_eq)
next
  fix name assume "name \<in> set (map Benchmark.Name benchmarks)"
  then show "0 < length (samples_of name benchmarks)"
    using samples_of_nonempty by simp
qed (simp_all only: average_Benchmark_sint)

theorem mergeBenchmarks_averages_witness:
  "mergeBenchmarks sample_benchmarks =
     [\<lparr>Benchmark.Name = ''BenchmarkNew'', Benchmark.Duration = 200, Bytes = 80, Allocs = 3\<rparr>,
      \<lparr>Benchmark.Name = ''BenchmarkFew'', Benchmark.Duration = 50, Bytes = 20, Allocs = 1\<rparr>] \<and>
   sint (Benchmark.Duration (average_Benchmark sample_benchmarks ''BenchmarkNew'')) = 401 sdiv 2"
proof -
  have n: "''BenchmarkNew'' \<in> set (map Benchmark.Name sample_benchmarks)"
    by (simp add: sample_benchmarks_def)
  have l: "length (samples_of ''BenchmarkNew'' sample_benchmarks) < 2 ^ 63"
    by (simp add: sample_benchmarks_def samples_of_def)
  from mergeBenchmarks_averages [of sample_benchmarks] n l
  show ?thesis
    by (simp add: sample_benchmarks_def average_Benchmark_def samples_of_def go_quo_def
        signed_divide_int_def)
qed

lemma length_mergeBenchmarks:
  "length (mergeBenchmarks bs) = length (distinct_names (map Benchmark.Name bs))"
  by (simp add: mergeBenchmarks_eq)

text \<open>
  Claim C1, as amended. In both formatter sources the suite at a package's
  position has \<open>failures\<close>, \<open>errors\<close> and \<open>skipped\<close> equal to the numbers of
  tests of the package whose result is FAIL, ERROR and SKIP. In
  \<^verbatim>\<open>formatter/formatter.go\<close> its \<open>tests\<close> is the number of tests of the package;
  in the second formatter source it is that number plus the number of merged
  benchmarks, one per distinct benchmark name.
\<close>

theorem testsuite_counts:
  "length (Suites (JUnitReportXML_suites P report gv full strip)) = length (Packages report) \<and>
   length (Suites (JUnitReportXML_part_000_suites P report gv)) = length (Packages report) \<and>
   (\<forall>i < length (Packages report).
      (let pkg = Packages report ! i;
           ts = Suites (JUnitReportXML_suites P report gv full strip) ! i;
           ts' = Suites (JUnitReportXML_part_000_suites P report gv) ! i
       in JUnitTestSuite.Tests ts = int (length (Package.Tests pkg)) \<and>
          Failures ts = count_Result FAIL (Package.Tests pkg) \<and>
          Errors ts = count_Result ERROR (Package.Tests pkg) \<and>
          Skipped ts = count_Result SKIP (Package.Tests pkg) \<and>
          JUnitTestSuite.Tests ts' =
            int (length (Package.Tests pkg)) +
            int (length (distinct_names (map Benchmark.Name (Benchmarks pkg)))) \<and>
          Failures ts' = count_Result FAIL (Package.Tests pkg) \<and>
          Errors ts' = count_Result ERROR (Package.Tests pkg) \<and>
          Skipped ts' = count_Result SKIP (Package.Tests pkg)))"
  by (simp add: suites_eq testSuite_fst part_000_suites_eq part_000_testSuite_fst
      length_mergeBenchmarks Let_def)

theorem testsuite_counts_witness:
  "0 < length (Packages sample_report) \<and>
   (let ts = Suites (JUnitReportXML_suites sample_platform sample_report [] False True) ! 0;
        ts' = Suites (JUnitReportXML_part_000_suites sample_platform sample_report []) ! 0
    in JUnitTestSuite.Tests ts = 4 \<and> Failures ts = 1 \<and> Errors ts = 1 \<and> Skipped ts = 1 \<and>
       JUnitTestSuite.Tests ts' = 6 \<and> Failures ts' = 1 \<and> Errors ts' = 1 \<and> Skipped ts' = 1)"
proof -
  have len: "0 < length (Packages sample_report)"
    by (simp add: sample_report_def)
  from testsuite_counts [of sample_platform sample_report "[]" False True] len
  show ?thesis
    by (simp add: Let_def sample_report_def sample_package_def sample_tests_def
        sample_benchmarks_def count_Result_def)
qed

text \<open>
  Claim C1 as stated fails on the second formatter source: for the sample
  package, with four tests and benchmarks under two names, \<open>tests\<close> is six.
\<close>

theorem testsuite_counts_counterexample:
  "JUnitTestSuite.Tests (Suites (JUnitReportXML_part_000_suites sample_platform sample_report []) ! 0)
     \<noteq> int (length (Package.Tests (Packages sample_report ! 0)))"
  by (simp add: part_000_suites_eq part_000_testSuite_fst length_mergeBenchmarks
      sample_report_def sample_package_def sample_tests_def sample_benchmarks_def)

lemma testCase_of_fields:
  "testCase_of P cn s t =
     (let out = formatOutput P (Test.Output t) s;
          tc = \<lparr>Classname = cn, JUnitTestCase.Name = Test.Name t,
                JUnitTestCase.Time = formatTime P (Test.Duration t),
                SkipMessage = None, Error = None, Failure = None, SystemOut = []\<rparr>
      in case Test.Result t of
           PASS \<Rightarrow> tc\<lparr>SystemOut := out\<rparr>
         | FAIL \<Rightarrow> tc\<lparr>Failure := Some \<lparr>JUnitFailure.Message = ''Failed'', JUnitFailure.Type = [],
                                         JUnitFailure.Contents = out\<rparr>\<rparr>
         | SKIP \<Rightarrow> tc\<lparr>SkipMessage := Some \<lparr>JUnitSkipMessage.Message = out\<rparr>\<rparr>
         | ERROR \<Rightarrow> tc\<lparr>Error := Some \<lparr>JUnitError.Message = ''Error'', JUnitError.Type = [],
                                      JUnitError.Contents = out\<rparr>\<rparr>)"
  by (simp add: testCase_of_def JUnitReportXML_testCase_def Let_def split: Result.split)

lemma testcase_nth:
  assumes "i < length (Packages report)" and "j < length (Package.Tests (Packages report ! i))"
  shows "TestCases (Suites (JUnitReportXML_suites P report gv full strip) ! i) ! j =
           testCase_of P (JUnitReportXML_classname full (Packages report ! i)) strip
             (Package.Tests (Packages report ! i) ! j)"
  using assms by (simp add: suites_eq testSuite_fst)

text \<open>
  Claim C2. For every test of every package, the test case at the test's
  position in the suite of the package holds the formatted output of the test
  in exactly one place, chosen by the result: \<open>SystemOut\<close> (the comment node,
  not an attribute) for PASS, with no \<open>Failure\<close>, \<open>Error\<close> or \<open>SkipMessage\<close>;
  the \<open>Failure\<close> element for FAIL; the \<open>Error\<close> element for ERROR; the
  \<open>SkipMessage\<close> element for SKIP.
\<close>

theorem testcase_output_placement:
  "\<forall>i < length (Packages report). \<forall>j < length (Package.Tests (Packages report ! i)).
     (let test = Package.Tests (Packages report ! i) ! j;
          tc = TestCases (Suites (JUnitReportXML_suites P report gv full strip) ! i) ! j;
          out = formatOutput P (Test.Output test) strip
      in (Test.Result test = PASS \<longrightarrow>
            SystemOut tc = out \<and> Failure tc = None \<and> Error tc = None \<and> SkipMessage tc = None) \<and>
         (Test.Result test = FAIL \<longrightarrow>
            Failure tc = Some \<lparr>JUnitFailure.Message = ''Failed'', JUnitFailure.Type = [],
                                JUnitFailure.Contents = out\<rparr> \<and>
            Error tc = None \<and> SkipMessage tc = None \<and> SystemOut tc = []) \<and>
         (Test.Result test = ERROR \<longrightarrow>
            Error tc = Some \<lparr>JUnitError.Message = ''Error'', JUnitError.Type = [],
                              JUnitError.Contents = out\<rparr> \<and>
            Failure tc = None \<and> SkipMessage tc = None \<and> SystemOut tc = []) \<and>
         (Test.Result test = SKIP \<longrightarrow>
            SkipMessage tc = Some \<lparr>JUnitSkipMessage.Message = out\<rparr> \<and>
            Failure tc = None \<and> Error tc = None \<and> SystemOut tc = []))"
  by (simp add: testcase_nth testCase_of_fields Let_def)

theorem testcase_output_placement_witness:
  "0 < length (Packages sample_report) \<and> 3 < length (Package.Tests (Packages sample_report ! 0)) \<and>
   (let tcs = TestCases (Suites (JUnitReportXML_suites sample_platform sample_report [] False True) ! 0)
    in Failure (tcs ! 0) = Some \<lparr>JUnitFailure.Message = ''Failed'', JUnitFailure.Type = [],
                                 JUnitFailure.Contents = [CHR ''a'', CHR 0x0A, CHR ''b'']\<rparr> \<and>
       SystemOut (tcs ! 0) = [] \<and>
       SystemOut (tcs ! 1) = ''c'' \<and> Failure (tcs ! 1) = None \<and> Error (tcs ! 1) = None \<and>
       SkipMessage (tcs ! 1) = None \<and>
       SkipMessage (tcs ! 2) = Some \<lparr>JUnitSkipMessage.Message = ''d''\<rparr> \<and>
       Error (tcs ! 3) = Some \<lparr>JUnitError.Message = ''Error'', JUnitError.Type = [],
                                JUnitError.Contents = []\<rparr>)"
proof -
  have len: "0 < length (Packages sample_report)"
       "3 < length (Package.Tests (Packages sample_report ! 0))"
    by (simp_all add: sample_report_def sample_package_def sample_tests_def)
  note T = testcase_output_placement [of sample_report sample_platform "[]" False True,
      THEN spec, THEN mp, OF len(1), THEN spec, THEN mp]
  have "0 < length (Package.Tests (Packages sample_report ! 0))"
       "1 < length (Package.Tests (Packages sample_report ! 0))"
       "2 < length (Package.Tests (Packages sample_report ! 0))"
    by (simp_all add: sample_report_def sample_package_def sample_tests_def)
  from T [OF this(1)] T [OF this(2)] T [OF this(3)] T [OF len(2)] len
  show ?thesis
    by (simp add: Let_def formatOutput_def sample_platform_def sample_Strip_def
        sample_report_def sample_package_def sample_tests_def)
qed

lemma strings_Join_eq: "strings_Join lines [CHR 0x0A] = join_lines lines"
  by (induction lines "[CHR 0x0A]" rule: strings_Join.induct) simp_all

lemma formatOutput_eq:
  "formatOutput P lines strip =
     (if strip then stripansi_Strip P (join_lines lines) else join_lines lines)"
  by (simp add: formatOutput_def strings_Join_eq)

lemma formatOutput_part_000_eq:
  "formatOutput_part_000 P lines = stripansi_Strip P (join_lines lines)"
  by (simp add: formatOutput_part_000_def strings_Join_eq)

lemma testcase_output_testCase_of:
  "testcase_output (testCase_of P cn strip t) = formatOutput P (Test.Output t) strip"
  by (simp add: testCase_of_fields testcase_output_def Let_def split: Result.split)

lemma testcase_output_testCase_of_part_000:
  "testcase_output (testCase_of_part_000 P cn t) = formatOutput_part_000 P (Test.Output t)"
  by (simp add: testCase_of_part_000_def JUnitReportXML_part_000_testCase_def testcase_output_def
      Let_def split: Result.split)

lemma part_000_testcase_nth:
  assumes "i < length (Packages report)" and "j < length (Package.Tests (Packages report ! i))"
  shows "TestCases (Suites (JUnitReportXML_part_000_suites P report gv) ! i) ! j =
           testCase_of_part_000 P (JUnitReportXML_part_000_classname (Packages report ! i))
             (Package.Tests (Packages report ! i) ! j)"
  using assms by (simp add: part_000_suites_eq part_000_testSuite_fst nth_append)

text \<open>
  Claim C6. The output text that a test case carries is the lines of the test's
  output joined with newline characters, passed through \<^verbatim>\<open>stripansi.Strip\<close>
  when \<^verbatim>\<open>stripANSIEscape\<close> is set and unchanged when it is not. This is what
  \<open>formatOutput\<close> computes. The second formatter source has no such option:
  its \<open>formatOutput\<close> is the one above with the option set.
\<close>

theorem output_text_formatting:
  "(\<forall>i < length (Packages report). \<forall>j < length (Package.Tests (Packages report ! i)).
      testcase_output (TestCases (Suites (JUnitReportXML_suites P report gv full strip) ! i) ! j) =
        (if strip then stripansi_Strip P (join_lines (Test.Output (Package.Tests (Packages report ! i) ! j)))
         else join_lines (Test.Output (Package.Tests (Packages report ! i) ! j))) \<and>
      testcase_output (TestCases (Suites (JUnitReportXML_part_000_suites P report gv) ! i) ! j) =
        stripansi_Strip P (join_lines (Test.Output (Package.Tests (Packages report ! i) ! j)))) \<and>
   formatOutput P lines strip =
     (if strip then stripansi_Strip P (join_lines lines) else join_lines lines) \<and>
   formatOutput_part_000 P lines = formatOutput P lines True"
  by (simp add: testcase_nth part_000_testcase_nth testcase_output_testCase_of
      testcase_output_testCase_of_part_000 formatOutput_eq formatOutput_part_000_eq)

theorem output_text_formatting_witness:
  "0 < length (Packages colour_report) \<and> 0 < length (Package.Tests (Packages colour_report ! 0)) \<and>
   testcase_output (TestCases (Suites (JUnitReportXML_suites sample_platform colour_report [] False False) ! 0) ! 0)
     = CHR 0x1B # ''[31mred'' @ CHR 0x0A # ''plain'' \<and>
   testcase_output (TestCases (Suites (JUnitReportXML_suites sample_platform colour_report [] False True) ! 0) ! 0)
     = ''[31mred'' @ CHR 0x0A # ''plain'' \<and>
   testcase_output (TestCases (Suites (JUnitReportXML_part_000_suites sample_platform colour_report []) ! 0) ! 0)
     = ''[31mred'' @ CHR 0x0A # ''plain''"
proof -
  have len: "0 < length (Packages colour_report)"
       "0 < length (Package.Tests (Packages colour_report ! 0))"
    by (simp_all add: colour_report_def)
  from output_text_formatting [of colour_report sample_platform "[]" False False,
         THEN conjunct1, THEN spec, THEN mp, OF len(1), THEN spec, THEN mp, OF len(2)]
       output_text_formatting [of colour_report sample_platform "[]" False True,
         THEN conjunct1, THEN spec, THEN mp, OF len(1), THEN spec, THEN mp, OF len(2)]
       len
  show ?thesis
    by (simp add: colour_report_def sample_platform_def sample_Strip_def)
qed

lemma testCase_of_Name: "JUnitTestCase.Name (testCase_of P cn s t) = Test.Name t"
  by (simp add: testCase_of_fields Let_def split: Result.split)

lemma testCase_of_part_000_Name: "JUnitTestCase.Name (testCase_of_part_000 P cn t) = Test.Name t"
  by (simp add: testCase_of_part_000_def JUnitReportXML_part_000_testCase_def Let_def
      split: Result.split)

lemma benchmarkCase_Name:
  "JUnitTestCase.Name (JUnitReportXML_part_000_benchmarkCase P cn b) = Benchmark.Name b"
  by (simp add: JUnitReportXML_part_000_benchmarkCase_def)

lemma average_Benchmark_Name: "Benchmark.Name (average_Benchmark bs name) = name"
  by (simp add: average_Benchmark_def Let_def)

lemma map_Name_mergeBenchmarks:
  "map Benchmark.Name (mergeBenchmarks bs) = distinct_names (map Benchmark.Name bs)"
  by (simp add: mergeBenchmarks_eq average_Benchmark_Name comp_def)

text \<open>
  Claim C10, as amended. In both formatter sources the suites follow the
  packages of the report, one suite per package and in their order. In
  \<^verbatim>\<open>formatter/formatter.go\<close> the test cases of a suite are the test cases of the
  package's tests, one per test and in their order. In the second formatter
  source the test cases of the tests come first, one per test and in their
  order, followed by one test case per distinct benchmark name, in the order in
  which the names first occur.
\<close>

theorem order_preserved:
  "map JUnitTestSuite.Name (Suites (JUnitReportXML_suites P report gv full strip)) =
     map Package.Name (Packages report) \<and>
   map JUnitTestSuite.Name (Suites (JUnitReportXML_part_000_suites P report gv)) =
     map Package.Name (Packages report) \<and>
   (\<forall>i < length (Packages report).
      (let pkg = Packages report ! i;
           tcs = TestCases (Suites (JUnitReportXML_suites P report gv full strip) ! i);
           tcs' = TestCases (Suites (JUnitReportXML_part_000_suites P report gv) ! i)
       in tcs = map (testCase_of P (JUnitReportXML_classname full pkg) strip) (Package.Tests pkg) \<and>
          map JUnitTestCase.Name tcs = map Test.Name (Package.Tests pkg) \<and>
          take (length (Package.Tests pkg)) tcs' =
            map (testCase_of_part_000 P (JUnitReportXML_part_000_classname pkg)) (Package.Tests pkg) \<and>
          map JUnitTestCase.Name tcs' =
            map Test.Name (Package.Tests pkg) @ distinct_names (map Benchmark.Name (Benchmarks pkg))))"
  by (simp add: suites_eq part_000_suites_eq testSuite_fst part_000_testSuite_fst comp_def Let_def
      testCase_of_Name testCase_of_part_000_Name benchmarkCase_Name
      map_Name_mergeBenchmarks [unfolded comp_def, simplified])

theorem order_preserved_witness:
  "0 < length (Packages sample_report) \<and>
   map JUnitTestCase.Name
     (TestCases (Suites (JUnitReportXML_suites sample_platform sample_report [] False True) ! 0)) =
     [''TestOne'', ''TestTwo'', ''TestThree'', ''TestFour''] \<and>
   map JUnitTestCase.Name
     (TestCases (Suites (JUnitReportXML_part_000_suites sample_platform sample_report []) ! 0)) =
     [''TestOne'', ''TestTwo'', ''TestThree'', ''TestFour'', ''BenchmarkNew'', ''BenchmarkFew'']"
proof -
  have len: "0 < length (Packages sample_report)"
    by (simp add: sample_report_def)
  from order_preserved [of sample_platform sample_report "[]" False True,
         THEN conjunct2, THEN conjunct2, THEN spec, THEN mp, OF len] len
  show ?thesis
    by (simp add: Let_def sample_report_def sample_package_def sample_tests_def
        sample_benchmarks_def testCase_of_Name)
qed

text \<open>
  Claim C10 as stated fails on the second formatter source: the sample package
  has three benchmark entries under two names, and its suite has two benchmark
  test cases, so the entries are not carried over one for one.
\<close>

theorem order_preserved_counterexample:
  "map JUnitTestCase.Name
     (TestCases (Suites (JUnitReportXML_part_000_suites sample_platform sample_report []) ! 0)) \<noteq>
   map Test.Name (Package.Tests (Packages sample_report ! 0)) @
   map Benchmark.Name (Benchmarks (Packages sample_report ! 0))"
  by (simp add: part_000_suites_eq part_000_testSuite_fst comp_def
      testCase_of_part_000_Name benchmarkCase_Name
      map_Name_mergeBenchmarks [unfolded comp_def, simplified]
      sample_report_def sample_package_def sample_tests_def sample_benchmarks_def)

end
